theory Spec2Isabelle
  imports
    Main
    "HOL-Library.Char_ord"
    "HOL-Library.List_Lexorder"
    "HOL-Library.Multiset"
    "HOL-Library.Sublist"
begin

section \<open>Values, errors and results\<close>

text \<open>
  The script is Python 2. The values that the comparator reads out of an instance or a
  launch configuration are \<open>None\<close>, a string, or a list of strings. Strings are
  compared bytewise, which is the lexicographic order on \<open>char list\<close>.
\<close>

datatype pyval = PNone | PStr string | PList "string list"

text \<open>
  Every exception the modelled code can raise. \<open>AttributeError\<close> carries the message
  of an explicit \<open>raise AttributeError(msg)\<close>; \<open>AttributeError_getattr\<close> is the
  interpreter's own AttributeError for a failed attribute access and carries the name of
  the attribute that was looked up. \<open>ClientError\<close> carries
  \<open>response['Error']['Code']\<close>. \<open>ExternalError\<close> is any other exception of a
  collaborator (SSH client, tunnel, cloud client).
\<close>

datatype py_error =
    KeyError string
  | AttributeError string
  | AttributeError_getattr string
  | TypeError
  | IndexError
  | IOError string
  | ClientError string
  | ExternalError string

fun is_AttributeError :: "py_error \<Rightarrow> bool" where
  "is_AttributeError (AttributeError _) = True"
| "is_AttributeError (AttributeError_getattr _) = True"
| "is_AttributeError _ = False"

text \<open>Sequencing of statements that may raise: the first exception ends the run.\<close>

definition and_then :: "'e + 'a \<Rightarrow> ('a \<Rightarrow> 'e + 'b) \<Rightarrow> 'e + 'b" where
  "and_then r f = (case r of Inl e \<Rightarrow> Inl e | Inr v \<Rightarrow> f v)"

text \<open>Python truthiness and \<open>x or ''\<close>.\<close>

fun truthy :: "pyval \<Rightarrow> bool" where
  "truthy PNone = False"
| "truthy (PStr s) = (s \<noteq> [])"
| "truthy (PList xs) = (xs \<noteq> [])"

definition or_empty :: "pyval \<Rightarrow> pyval" where
  "or_empty v = (if truthy v then v else PStr [])"

text \<open>
  \<open>sorted(v)\<close>: a list is sorted, a string is iterated character by character, and
  \<open>None\<close> is not iterable.
\<close>

fun py_sorted :: "pyval \<Rightarrow> py_error + string list" where
  "py_sorted PNone = Inl TypeError"
| "py_sorted (PStr s) = Inr (sort (map (\<lambda>c. [c]) s))"
| "py_sorted (PList xs) = Inr (sort xs)"

section \<open>Instances and launch configurations\<close>

record security_group =
  GroupId :: string

text \<open>
  An EC2 instance object. \<open>launch_time\<close> is a datetime, modelled by its position on
  the time line. The attributes the comparator reads may be missing from the object
  (\<open>None\<close> of the option type); an attribute that is present holds a Python value, which
  may itself be \<open>PNone\<close>.
\<close>

record ec2_instance =
  instance_id :: string
  launch_time :: int
  private_ip_address :: string
  security_groups :: "security_group list option"
  image_id :: "pyval option"
  instance_type :: "pyval option"
  kernel_id :: "pyval option"
  key_name :: "pyval option"
  iam_instance_profile :: "pyval option"

text \<open>\<open>getattr(instance, name)\<close> for the attributes that are looked up by name.\<close>

definition getattr :: "ec2_instance \<Rightarrow> string \<Rightarrow> pyval option" where
  "getattr inst name =
     (if name = ''image_id'' then image_id inst
      else if name = ''instance_type'' then instance_type inst
      else if name = ''kernel_id'' then kernel_id inst
      else if name = ''key_name'' then key_name inst
      else if name = ''iam_instance_profile'' then iam_instance_profile inst
      else None)"

text \<open>The launch configuration is the dict of the describe response.\<close>

type_synonym launch_config = "string \<rightharpoonup> pyval"

section \<open>InstanceConfigComparator\<close>

definition missing_required_msg :: "string \<Rightarrow> string" where
  "missing_required_msg config_attr_name =
     ''Launch configuration response was missing required attribute '' @ config_attr_name"

text \<open>
  The nested function \<open>check_attr\<close>; the enclosing \<open>change_list\<close> is passed in and
  returned. \<open>getattr\<close> is evaluated first and its AttributeError is not caught; the
  KeyError of the dict lookup is caught and replaced.
\<close>

definition check_attr ::
  "ec2_instance \<Rightarrow> launch_config \<Rightarrow> string list \<Rightarrow> string \<Rightarrow> string \<Rightarrow> py_error + string list"
where
  "check_attr inst asg_launch_config change_list instance_attr_name config_attr_name =
     (case getattr inst instance_attr_name of
        None \<Rightarrow> Inl (AttributeError_getattr instance_attr_name)
      | Some ia \<Rightarrow>
          (case asg_launch_config config_attr_name of
             None \<Rightarrow> Inl (AttributeError (missing_required_msg config_attr_name))
           | Some ca \<Rightarrow>
               (let instance_attr = or_empty ia;
                    config_attr = or_empty ca
                in if config_attr \<noteq> PStr [] \<and> instance_attr \<noteq> config_attr
                   then Inr (change_list @ [config_attr_name])
                   else Inr change_list)))"

definition required_attrs :: "(string \<times> string) list" where
  "required_attrs =
     [(''image_id'', ''ImageId''), (''instance_type'', ''InstanceType''),
      (''kernel_id'', ''KernelId''), (''key_name'', ''KeyName'')]"

definition compare_to_config ::
  "ec2_instance \<Rightarrow> launch_config \<Rightarrow> pyval \<Rightarrow> py_error + string list"
where
  "compare_to_config inst asg_launch_config instance_userdata =
     (case asg_launch_config ''UserData'' of
        None \<Rightarrow> Inl (KeyError ''UserData'')
      | Some config_userdata \<Rightarrow>
     (let change_list0 = (if instance_userdata \<noteq> config_userdata then [''UserData''] else [])
      in case security_groups inst of
        None \<Rightarrow> Inl (AttributeError_getattr ''security_groups'')
      | Some sgs \<Rightarrow>
     (let instance_sg = sort (map GroupId sgs)
      in case asg_launch_config ''SecurityGroups'' of
        None \<Rightarrow> Inl (KeyError ''SecurityGroups'')
      | Some config_groups \<Rightarrow>
     and_then (py_sorted config_groups) (\<lambda>config_sg.
     (let change_list1 =
            (if instance_sg \<noteq> config_sg then change_list0 @ [''SecurityGroups'']
             else change_list0)
      in
     and_then (check_attr inst asg_launch_config change_list1 ''image_id'' ''ImageId'')
       (\<lambda>change_list2.
     and_then (check_attr inst asg_launch_config change_list2 ''instance_type'' ''InstanceType'')
       (\<lambda>change_list3.
     and_then (check_attr inst asg_launch_config change_list3 ''kernel_id'' ''KernelId'')
       (\<lambda>change_list4.
     and_then (check_attr inst asg_launch_config change_list4 ''key_name'' ''KeyName'')
       (\<lambda>change_list5.
     (let instance_iam_profile =
            or_empty (case iam_instance_profile inst of None \<Rightarrow> PStr [] | Some v \<Rightarrow> v);
          config_iam_profile =
            or_empty (case asg_launch_config ''IamInstanceProfile'' of
                        None \<Rightarrow> PStr [] | Some v \<Rightarrow> v)
      in if instance_iam_profile \<noteq> config_iam_profile
         then Inr (change_list5 @ [''IamInstanceProfile''])
         else Inr change_list5))))))))))"

subsection \<open>Volumes\<close>

text \<open>
  A dict is the list of its items in iteration order; the keys of a dict are distinct.
  The volume descriptions are the records of the describe responses. A block device
  mapping of the launch configuration may have no \<open>Ebs\<close> entry, and a volume may have
  no attachment.
\<close>

type_synonym ('k, 'v) dict = "('k \<times> 'v) list"

record attachment =
  Device :: string
  att_DeleteOnTermination :: bool

record instance_volume =
  VolumeType :: string
  Size :: int
  Attachments :: "attachment list"

record ebs =
  ebs_VolumeType :: string
  VolumeSize :: int
  DeleteOnTermination :: bool

record config_volume =
  DeviceName :: string
  Ebs :: "ebs option"

definition keys :: "('k, 'v) dict \<Rightarrow> 'k set" where
  "keys d = set (map fst d)"

definition symmetric_difference :: "'a set \<Rightarrow> 'a set \<Rightarrow> 'a set" where
  "symmetric_difference A B = (A - B) \<union> (B - A)"

definition device_name_tag :: "string \<Rightarrow> string" where
  "device_name_tag dev = ''DeviceName:'' @ dev"

text \<open>The body of the loop over the items of the instance dict, for one item.\<close>

definition compare_volume ::
  "(string, config_volume) dict \<Rightarrow> string list \<Rightarrow> string \<Rightarrow> instance_volume
     \<Rightarrow> py_error + string list"
where
  "compare_volume config_volumes_dict change_list device_name iv =
     (case map_of config_volumes_dict device_name of
        None \<Rightarrow> Inl (KeyError device_name)
      | Some cv \<Rightarrow>
     (case Ebs cv of
        None \<Rightarrow> Inl (KeyError ''Ebs'')
      | Some e \<Rightarrow>
     (let change_list1 =
            (if VolumeType iv \<noteq> ebs_VolumeType e
             then change_list @ [device_name @ ''.BlockDeviceMappings.Ebs.VolumeType'']
             else change_list);
          change_list2 =
            (if Size iv \<noteq> VolumeSize e
             then change_list1 @ [device_name @ ''.BlockDeviceMappings.Ebs.Size'']
             else change_list1)
      in case Attachments iv of
           [] \<Rightarrow> Inl IndexError
         | a # _ \<Rightarrow>
             if att_DeleteOnTermination a \<noteq> DeleteOnTermination e
             then Inr (change_list2 @
                         [device_name @ ''.BlockDeviceMappings'' @ ''.Ebs.DeleteOnTermination''])
             else Inr change_list2)))"

fun compare_volumes_loop ::
  "(string, config_volume) dict \<Rightarrow> string list \<Rightarrow> (string, instance_volume) dict
     \<Rightarrow> py_error + string list"
where
  "compare_volumes_loop config_volumes_dict change_list [] = Inr change_list"
| "compare_volumes_loop config_volumes_dict change_list ((device_name, iv) # rest) =
     and_then (compare_volume config_volumes_dict change_list device_name iv)
       (\<lambda>change_list'. compare_volumes_loop config_volumes_dict change_list' rest)"

definition compare_volumes_config ::
  "(string, instance_volume) dict \<Rightarrow> (string, config_volume) dict \<Rightarrow> py_error + string list"
where
  "compare_volumes_config instance_volumes_dict config_volumes_dict =
     (if length config_volumes_dict = 0 \<and> length instance_volumes_dict = 1 then Inr []
      else
        let device_name_differences =
              symmetric_difference (keys instance_volumes_dict) (keys config_volumes_dict)
        in if device_name_differences \<noteq> {}
           then Inr (map device_name_tag (sorted_list_of_set device_name_differences))
           else compare_volumes_loop config_volumes_dict [] instance_volumes_dict)"

section \<open>RollingUpgradeManager.get_oldest_instance\<close>

text \<open>
  \<open>sorted(instances, key=lambda instance: instance.launch_time)[0]\<close>. Python's sort is
  stable, as is \<open>sort_key\<close>; indexing the empty list raises IndexError.
\<close>

definition get_oldest_instance :: "ec2_instance list \<Rightarrow> py_error + ec2_instance" where
  "get_oldest_instance instances =
     (case sort_key launch_time instances of
        [] \<Rightarrow> Inl IndexError
      | oldest # _ \<Rightarrow> Inr oldest)"

section \<open>AwsManager.terminate_instance\<close>

text \<open>What a call to a collaborator does: it returns a value or raises.\<close>

datatype 'a outcome = Returns 'a | Raises py_error

text \<open>
  The EC2 client's \<open>terminate_instances(DryRun=..., InstanceIds=[...])\<close> is a parameter.
  Only \<open>botocore.exceptions.ClientError\<close> is caught; the test on its error code is a
  substring test.
\<close>

definition terminate_instance ::
  "bool \<Rightarrow> (bool \<Rightarrow> string list \<Rightarrow> unit outcome) \<Rightarrow> string \<Rightarrow> py_error + unit"
where
  "terminate_instance do_dry_run terminate_instances instance_id' =
     (case terminate_instances do_dry_run [instance_id'] of
        Returns _ \<Rightarrow> Inr ()
      | Raises err \<Rightarrow>
          (case err of
             ClientError code \<Rightarrow>
               if \<not> sublist ''DryRunOperation'' code then Inl err else Inr ()
           | _ \<Rightarrow> Inl err))"

section \<open>InstanceSshManager\<close>

text \<open>
  The state of a manager object together with the resources it holds. \<open>ssh_tunnel\<close> is
  the attribute \<open>_ssh_tunnel\<close>, which the constructor does not assign; \<open>session_open\<close>
  tells whether the SSH client holds an open session, and \<open>tunnels_open\<close> counts the
  forwarders that were started and not closed. \<open>use_bastion_tunnel\<close> tells which of the
  two classes \<open>get_instance\<close> built.
\<close>

datatype tunnel_slot = Unset | TunnelNone | Tunnel

record ssh_manager =
  use_bastion_tunnel :: bool
  connected :: bool
  ssh_tunnel :: tunnel_slot
  session_open :: bool
  tunnels_open :: nat

text \<open>
  What the SSH collaborators do during one call: starting the forwarder, the successive
  readings of \<open>tunnel_is_up\<close>, connecting the client, and running the remote command
  up to its exit status. Closing a client or a forwarder does not raise.
\<close>

record ssh_env =
  tunnel_start :: "unit outcome"
  tunnel_is_up :: "nat \<Rightarrow> bool"
  ssh_connect :: "unit outcome"
  exec_command :: "int outcome"

definition get_instance :: "bool \<Rightarrow> ssh_manager" where
  "get_instance tunnelled =
     \<lparr>use_bastion_tunnel = tunnelled, connected = False, ssh_tunnel = Unset,
      session_open = False, tunnels_open = 0\<rparr>"

text \<open>
  \<open>while not ssh_tunnel.tunnel_is_up: ...; sleep(1)\<close> has no bound: a run that never
  sees the tunnel up does not return, which is the value \<open>None\<close>.
\<close>

partial_function (option) wait_tunnel_up :: "(nat \<Rightarrow> bool) \<Rightarrow> nat \<Rightarrow> unit option" where
  "wait_tunnel_up up n = (if up n then Some () else wait_tunnel_up up (Suc n))"

definition get_ssh_tunnel :: "ssh_env \<Rightarrow> ssh_manager \<Rightarrow> (ssh_manager \<times> (py_error + unit)) option"
where
  "get_ssh_tunnel env m =
     (case tunnel_start env of
        Raises e \<Rightarrow> Some (m, Inl e)
      | Returns _ \<Rightarrow>
          (let m1 = m\<lparr>tunnels_open := Suc (tunnels_open m)\<rparr>
           in case wait_tunnel_up (tunnel_is_up env) 0 of
                None \<Rightarrow> None
              | Some _ \<Rightarrow> Some (m1, Inr ())))"

definition client_connect :: "ssh_env \<Rightarrow> ssh_manager \<Rightarrow> ssh_manager \<times> (py_error + unit)" where
  "client_connect env m =
     (case ssh_connect env of
        Raises e \<Rightarrow> (m, Inl e)
      | Returns _ \<Rightarrow> (m\<lparr>session_open := True\<rparr>, Inr ()))"

definition create_connection ::
  "ssh_env \<Rightarrow> ssh_manager \<Rightarrow> (ssh_manager \<times> (py_error + unit)) option"
where
  "create_connection env m =
     (if use_bastion_tunnel m
      then (case get_ssh_tunnel env m of
              None \<Rightarrow> None
            | Some (m1, Inl e) \<Rightarrow> Some (m1, Inl e)
            | Some (m1, Inr _) \<Rightarrow> Some (client_connect env (m1\<lparr>ssh_tunnel := Tunnel\<rparr>)))
      else Some (client_connect env m))"

definition connect :: "ssh_env \<Rightarrow> ssh_manager \<Rightarrow> (ssh_manager \<times> (py_error + unit)) option"
where
  "connect env m =
     (if connected m then Some (m, Inl (IOError ''Already connected''))
      else (case create_connection env m of
              None \<Rightarrow> None
            | Some (m1, Inl e) \<Rightarrow> Some (m1, Inl e)
            | Some (m1, Inr _) \<Rightarrow> Some (m1\<lparr>connected := True\<rparr>, Inr ())))"

text \<open>
  \<open>close_connections\<close>: the base class closes the client and clears the flag; the
  tunnelled class then calls \<open>self._ssh_tunnel.close()\<close> and sets the attribute to
  \<open>None\<close>.
\<close>

definition close_connections :: "ssh_manager \<Rightarrow> ssh_manager \<times> (py_error + unit)" where
  "close_connections m =
     (let m1 = m\<lparr>session_open := False, connected := False\<rparr>
      in if use_bastion_tunnel m
         then (case ssh_tunnel m1 of
                 Unset \<Rightarrow> (m1, Inl (AttributeError_getattr ''_ssh_tunnel''))
               | TunnelNone \<Rightarrow> (m1, Inl (AttributeError_getattr ''close''))
               | Tunnel \<Rightarrow>
                   (m1\<lparr>tunnels_open := tunnels_open m1 - 1, ssh_tunnel := TunnelNone\<rparr>,
                    Inr ()))
         else (m1, Inr ()))"

text \<open>
  \<open>is_ready\<close>: the \<open>try\<close> body returns \<open>exit_code == 0\<close>, the bare \<open>except\<close>
  turns every exception of the body into \<open>False\<close>, and the \<open>finally\<close> clause runs
  \<open>close_connections\<close>, whose own exception replaces the pending return value.
\<close>

definition is_ready :: "ssh_env \<Rightarrow> ssh_manager \<Rightarrow> (ssh_manager \<times> (py_error + bool)) option"
where
  "is_ready env m =
     (case connect env m of
        None \<Rightarrow> None
      | Some (m1, r) \<Rightarrow>
          (let pending =
                 (case r of
                    Inl e \<Rightarrow> False
                  | Inr _ \<Rightarrow>
                      (case exec_command env of
                         Raises e \<Rightarrow> False
                       | Returns exit_code \<Rightarrow> exit_code = 0))
           in case close_connections m1 of
                (m2, Inl e) \<Rightarrow> Some (m2, Inl e)
              | (m2, Inr _) \<Rightarrow> Some (m2, Inr pending)))"

section \<open>Notation for the results\<close>

text \<open>
  Abbreviations used to state what the comparator returns: the tag a step contributes,
  the test of \<open>check_attr\<close>, and the test on the IAM instance profile.
\<close>

definition tag_if :: "bool \<Rightarrow> string \<Rightarrow> string list" where
  "tag_if b t = (if b then [t] else [])"

definition attr_differs :: "pyval \<Rightarrow> pyval \<Rightarrow> bool" where
  "attr_differs ia ca \<longleftrightarrow> or_empty ca \<noteq> PStr [] \<and> or_empty ia \<noteq> or_empty ca"

definition iam_differs :: "ec2_instance \<Rightarrow> launch_config \<Rightarrow> bool" where
  "iam_differs inst cfg \<longleftrightarrow>
     or_empty (case iam_instance_profile inst of None \<Rightarrow> PStr [] | Some v \<Rightarrow> v)
       \<noteq> or_empty (case cfg ''IamInstanceProfile'' of None \<Rightarrow> PStr [] | Some v \<Rightarrow> v)"

section \<open>Example data\<close>

text \<open>
  An instance whose image differs from the launch configuration and whose security
  groups are listed in another order, with variants that lack an attribute or a key.
\<close>

definition instance_a :: ec2_instance where
  "instance_a =
     \<lparr>instance_id = ''i-0a'', launch_time = 100, private_ip_address = ''10.0.0.1'',
      security_groups = Some [\<lparr>GroupId = ''sg-2''\<rparr>, \<lparr>GroupId = ''sg-1''\<rparr>],
      image_id = Some (PStr ''ami-1''), instance_type = Some (PStr ''t2.micro''),
      kernel_id = Some PNone, key_name = Some (PStr ''crunch-dev''),
      iam_instance_profile = None\<rparr>"

definition config_a :: launch_config where
  "config_a =
     [''UserData'' \<mapsto> PStr ''userdata'',
      ''SecurityGroups'' \<mapsto> PList [''sg-1'', ''sg-2''],
      ''ImageId'' \<mapsto> PStr ''ami-2'',
      ''InstanceType'' \<mapsto> PStr ''t2.micro'',
      ''KernelId'' \<mapsto> PStr [],
      ''KeyName'' \<mapsto> PStr ''crunch-dev'']"

definition config_volume_gp2 :: config_volume where
  "config_volume_gp2 =
     \<lparr>DeviceName = ''sda1'',
      Ebs = Some \<lparr>ebs_VolumeType = ''gp2'', VolumeSize = 8, DeleteOnTermination = True\<rparr>\<rparr>"

definition config_volume_standard :: config_volume where
  "config_volume_standard =
     \<lparr>DeviceName = ''sda2'',
      Ebs = Some \<lparr>ebs_VolumeType = ''standard'', VolumeSize = 16,
                  DeleteOnTermination = False\<rparr>\<rparr>"

definition volume_gp2 :: instance_volume where
  "volume_gp2 =
     \<lparr>VolumeType = ''gp2'', Size = 8,
      Attachments = [\<lparr>Device = ''sda1'', att_DeleteOnTermination = True\<rparr>]\<rparr>"

definition volume_detached :: instance_volume where
  "volume_detached = \<lparr>VolumeType = ''io1'', Size = 500, Attachments = []\<rparr>"

definition instance_no_image_id :: ec2_instance where
  "instance_no_image_id = instance_a\<lparr>image_id := None\<rparr>"

definition instance_empty_image_id :: ec2_instance where
  "instance_empty_image_id = instance_a\<lparr>image_id := Some (PStr [])\<rparr>"

definition config_no_image_id_no_userdata :: launch_config where
  "config_no_image_id_no_userdata = config_a(''ImageId'' := None, ''UserData'' := None)"

definition config_no_image_id_no_key_name :: launch_config where
  "config_no_image_id_no_key_name = config_a(''ImageId'' := None, ''KeyName'' := None)"

definition config_no_key_name :: launch_config where
  "config_no_key_name = config_a(''KeyName'' := None)"

definition config_no_userdata :: launch_config where
  "config_no_userdata = config_a(''UserData'' := None)"

definition config_no_security_groups :: launch_config where
  "config_no_security_groups = config_a(''SecurityGroups'' := None)"

text \<open>
  An instance and a configuration that between them show the four cases of a required
  pair: both values set and different, the instance value \<open>None\<close>, the configuration
  value \<open>None\<close>, and the configuration value empty.
\<close>

definition instance_c :: ec2_instance where
  "instance_c = instance_a\<lparr>instance_type := Some PNone, kernel_id := Some (PStr ''aki-1'')\<rparr>"

definition config_c :: launch_config where
  "config_c = config_a(''KernelId'' \<mapsto> PNone, ''KeyName'' \<mapsto> PStr [])"

text \<open>
  Two volume dicts that share one device and have one device each that the other lacks,
  listed out of order.
\<close>

definition instance_volumes_cb :: "(string, instance_volume) dict" where
  "instance_volumes_cb = [(''sdc'', volume_detached), (''sda1'', volume_gp2)]"

definition config_volumes_cb :: "(string, config_volume) dict" where
  "config_volumes_cb = [(''sdb'', config_volume_standard), (''sda1'', config_volume_gp2)]"

definition instance_b :: ec2_instance where
  "instance_b = instance_a\<lparr>instance_id := ''i-0b''\<rparr>"

text \<open>
  Two EC2 clients in the manner of the tests: one always answers with the dry-run
  marker, the other with another client error.
\<close>

definition always_dry_run_marker :: "bool \<Rightarrow> string list \<Rightarrow> unit outcome" where
  "always_dry_run_marker dry_run instance_ids = Raises (ClientError ''DryRunOperation'')"

definition always_test_error :: "bool \<Rightarrow> string list \<Rightarrow> unit outcome" where
  "always_test_error dry_run instance_ids = Raises (ClientError ''TestError'')"

text \<open>
  A bastion that cannot be reached, so that starting the forwarder raises; and a tunnelled
  manager on which an earlier probe has run to its end.
\<close>

definition manager_after_probe :: ssh_manager where
  "manager_after_probe = (get_instance True)\<lparr>ssh_tunnel := TunnelNone\<rparr>"

definition env_bastion_unreachable :: ssh_env where
  "env_bastion_unreachable =
     \<lparr>tunnel_start = Raises (ExternalError ''Could not establish session to SSH gateway''),
      tunnel_is_up = (\<lambda>n. False), ssh_connect = Returns (), exec_command = Returns 0\<rparr>"

section \<open>Auxiliary facts\<close>

lemma and_then_Inl [simp]: "and_then (Inl e) f = Inl e"
  by (simp add: and_then_def)

lemma and_then_Inr [simp]: "and_then (Inr v) f = f v"
  by (simp add: and_then_def)

lemma if_append_tag: "(if b then xs @ [t] else xs) = xs @ tag_if b t"
  by (simp add: tag_if_def)

lemma if_single_tag: "(if b then [t] else []) = tag_if b t"
  by (simp add: tag_if_def)

lemma if_Inr_tag: "(if b then Inr (xs @ [t]) else Inr xs) = Inr (xs @ tag_if b t)"
  by (simp add: tag_if_def)

lemma mem_tag_if: "x \<in> set (tag_if b t) \<longleftrightarrow> b \<and> x = t"
  by (auto simp: tag_if_def)

lemma check_attr_cases:
  "check_attr inst cfg cl a k =
     (case getattr inst a of
        None \<Rightarrow> Inl (AttributeError_getattr a)
      | Some ia \<Rightarrow>
          (case cfg k of
             None \<Rightarrow> Inl (AttributeError (missing_required_msg k))
           | Some ca \<Rightarrow> Inr (cl @ tag_if (attr_differs ia ca) k)))"
  by (simp add: check_attr_def Let_def tag_if_def attr_differs_def split: option.splits)

lemma getattr_simps:
  "getattr inst ''image_id'' = image_id inst"
  "getattr inst ''instance_type'' = instance_type inst"
  "getattr inst ''kernel_id'' = kernel_id inst"
  "getattr inst ''key_name'' = key_name inst"
  by (simp_all add: getattr_def)

lemma compare_to_config_unfold:
  "compare_to_config inst cfg ud =
     (case cfg ''UserData'' of
        None \<Rightarrow> Inl (KeyError ''UserData'')
      | Some cud \<Rightarrow>
     (case security_groups inst of
        None \<Rightarrow> Inl (AttributeError_getattr ''security_groups'')
      | Some sgs \<Rightarrow>
     (case cfg ''SecurityGroups'' of
        None \<Rightarrow> Inl (KeyError ''SecurityGroups'')
      | Some gs \<Rightarrow>
     (case py_sorted gs of
        Inl e \<Rightarrow> Inl e
      | Inr csg \<Rightarrow>
     (case image_id inst of
        None \<Rightarrow> Inl (AttributeError_getattr ''image_id'')
      | Some i1 \<Rightarrow>
     (case cfg ''ImageId'' of
        None \<Rightarrow> Inl (AttributeError (missing_required_msg ''ImageId''))
      | Some c1 \<Rightarrow>
     (case instance_type inst of
        None \<Rightarrow> Inl (AttributeError_getattr ''instance_type'')
      | Some i2 \<Rightarrow>
     (case cfg ''InstanceType'' of
        None \<Rightarrow> Inl (AttributeError (missing_required_msg ''InstanceType''))
      | Some c2 \<Rightarrow>
     (case kernel_id inst of
        None \<Rightarrow> Inl (AttributeError_getattr ''kernel_id'')
      | Some i3 \<Rightarrow>
     (case cfg ''KernelId'' of
        None \<Rightarrow> Inl (AttributeError (missing_required_msg ''KernelId''))
      | Some c3 \<Rightarrow>
     (case key_name inst of
        None \<Rightarrow> Inl (AttributeError_getattr ''key_name'')
      | Some i4 \<Rightarrow>
     (case cfg ''KeyName'' of
        None \<Rightarrow> Inl (AttributeError (missing_required_msg ''KeyName''))
      | Some c4 \<Rightarrow>
          Inr (tag_if (ud \<noteq> cud) ''UserData''
               @ tag_if (sort (map GroupId sgs) \<noteq> csg) ''SecurityGroups''
               @ tag_if (attr_differs i1 c1) ''ImageId''
               @ tag_if (attr_differs i2 c2) ''InstanceType''
               @ tag_if (attr_differs i3 c3) ''KernelId''
               @ tag_if (attr_differs i4 c4) ''KeyName''
               @ tag_if (iam_differs inst cfg) ''IamInstanceProfile'')))))))))))))"
  unfolding compare_to_config_def Let_def if_append_tag if_single_tag if_Inr_tag
    check_attr_cases getattr_simps iam_differs_def [symmetric]
  by (simp split: option.splits sum.splits)

lemma compare_to_config_InrE [consumes 1]:
  assumes "compare_to_config inst cfg ud = Inr r"
  obtains cud sgs gs csg i1 i2 i3 i4 c1 c2 c3 c4 where
    "cfg ''UserData'' = Some cud" "security_groups inst = Some sgs"
    "cfg ''SecurityGroups'' = Some gs" "py_sorted gs = Inr csg"
    "image_id inst = Some i1" "cfg ''ImageId'' = Some c1"
    "instance_type inst = Some i2" "cfg ''InstanceType'' = Some c2"
    "kernel_id inst = Some i3" "cfg ''KernelId'' = Some c3"
    "key_name inst = Some i4" "cfg ''KeyName'' = Some c4"
    "r = tag_if (ud \<noteq> cud) ''UserData''
               @ tag_if (sort (map GroupId sgs) \<noteq> csg) ''SecurityGroups''
               @ tag_if (attr_differs i1 c1) ''ImageId''
               @ tag_if (attr_differs i2 c2) ''InstanceType''
               @ tag_if (attr_differs i3 c3) ''KernelId''
               @ tag_if (attr_differs i4 c4) ''KeyName''
               @ tag_if (iam_differs inst cfg) ''IamInstanceProfile''"
  using assms unfolding compare_to_config_unfold
  apply (cases "cfg ''UserData''"; simp)
  apply (cases "security_groups inst"; simp)
  apply (cases "cfg ''SecurityGroups''"; simp)
  subgoal for cud sgs gs
    apply (cases "py_sorted gs"; simp)
    apply (cases "image_id inst"; simp)
    apply (cases "cfg ''ImageId''"; simp)
    apply (cases "instance_type inst"; simp)
    apply (cases "cfg ''InstanceType''"; simp)
    apply (cases "kernel_id inst"; simp)
    apply (cases "cfg ''KernelId''"; simp)
    apply (cases "key_name inst"; simp)
    apply (cases "cfg ''KeyName''"; simp)
    done
  done

lemma required_attrs_cases [consumes 1]:
  assumes "(a, k) \<in> set required_attrs"
  obtains "a = ''image_id''" "k = ''ImageId''"
    | "a = ''instance_type''" "k = ''InstanceType''"
    | "a = ''kernel_id''" "k = ''KernelId''"
    | "a = ''key_name''" "k = ''KeyName''"
proof -
  from assms have
    "(a = ''image_id'' \<and> k = ''ImageId'') \<or> (a = ''instance_type'' \<and> k = ''InstanceType'')
     \<or> (a = ''kernel_id'' \<and> k = ''KernelId'') \<or> (a = ''key_name'' \<and> k = ''KeyName'')"
    by (simp add: required_attrs_def)
  then show thesis
  proof (elim disjE conjE)
    assume "a = ''image_id''" "k = ''ImageId''" then show thesis by (rule that(1))
  next
    assume "a = ''instance_type''" "k = ''InstanceType''" then show thesis by (rule that(2))
  next
    assume "a = ''kernel_id''" "k = ''KernelId''" then show thesis by (rule that(3))
  next
    assume "a = ''key_name''" "k = ''KeyName''" then show thesis by (rule that(4))
  qed
qed

lemma compare_to_config_Inr_present:
  assumes "compare_to_config inst cfg ud = Inr r" and "(a, k) \<in> set required_attrs"
  shows "getattr inst a \<noteq> None \<and> cfg k \<noteq> None"
  using assms(1)
proof (cases rule: compare_to_config_InrE)
  case p: (1 cud sgs gs csg i1 i2 i3 i4 c1 c2 c3 c4)
  from assms(2) show ?thesis
  proof (cases rule: required_attrs_cases)
    case 1 with p(5,6) show ?thesis by (simp add: getattr_simps)
  next
    case 2 with p(7,8) show ?thesis by (simp add: getattr_simps)
  next
    case 3 with p(9,10) show ?thesis by (simp add: getattr_simps)
  next
    case 4 with p(11,12) show ?thesis by (simp add: getattr_simps)
  qed
qed

lemma compare_to_config_raises_if_incomplete:
  assumes "(a, k) \<in> set required_attrs" and "getattr inst a = None \<or> cfg k = None"
  shows "\<exists>e. compare_to_config inst cfg ud = Inl e"
proof (cases "compare_to_config inst cfg ud")
  case (Inl e) then show ?thesis by simp
next
  case (Inr r)
  from compare_to_config_Inr_present [OF Inr assms(1)] assms(2) show ?thesis by auto
qed

lemma compare_to_config_error_after_groups_aux:
  assumes "cfg ''UserData'' = Some cud" "security_groups inst = Some sgs"
    "cfg ''SecurityGroups'' = Some gs" "py_sorted gs = Inr csg"
  shows "case compare_to_config inst cfg ud of Inl e \<Rightarrow> is_AttributeError e | Inr r \<Rightarrow> True"
  unfolding compare_to_config_unfold using assms by (simp split: option.splits)

lemma compare_to_config_error_after_groups:
  assumes "cfg ''UserData'' = Some cud" "security_groups inst = Some sgs"
    "cfg ''SecurityGroups'' = Some gs" "py_sorted gs = Inr csg"
    "compare_to_config inst cfg ud = Inl e"
  shows "is_AttributeError e"
  using compare_to_config_error_after_groups_aux [OF assms(1-4), of ud] assms(5) by simp

lemma check_attr_no_attribute:
  "getattr inst a = None \<Longrightarrow> check_attr inst cfg cl a k = Inl (AttributeError_getattr a)"
  by (simp add: check_attr_def)

lemma check_attr_no_key:
  "getattr inst a \<noteq> None \<Longrightarrow> cfg k = None
     \<Longrightarrow> check_attr inst cfg cl a k = Inl (AttributeError (missing_required_msg k))"
  by (auto simp: check_attr_def)

lemma compare_to_config_no_UserData:
  "cfg ''UserData'' = None \<Longrightarrow> compare_to_config inst cfg ud = Inl (KeyError ''UserData'')"
  by (simp add: compare_to_config_def)

lemma compare_to_config_no_SecurityGroups:
  "cfg ''UserData'' = Some cud \<Longrightarrow> security_groups inst = Some sgs
     \<Longrightarrow> cfg ''SecurityGroups'' = None
     \<Longrightarrow> compare_to_config inst cfg ud = Inl (KeyError ''SecurityGroups'')"
  by (simp add: compare_to_config_def Let_def)

lemma or_empty_cases:
  "v = PStr s \<or> (v = PNone \<and> s = []) \<Longrightarrow> or_empty v = PStr s"
  by (auto simp: or_empty_def)

lemma py_sorted_not_None: "gs \<noteq> PNone \<Longrightarrow> \<exists>csg. py_sorted gs = Inr csg"
  by (cases gs) simp_all

lemma check_attr_tag_iff:
  "(a, k) \<in> set required_attrs \<Longrightarrow> getattr inst a = Some ia \<Longrightarrow> cfg k = Some ca \<Longrightarrow>
     check_attr inst cfg cl a k
       = Inr (if or_empty ca \<noteq> PStr [] \<and> or_empty ia \<noteq> or_empty ca then cl @ [k] else cl)
     \<and> (\<forall>r. compare_to_config inst cfg ud = Inr r \<longrightarrow>
           (k \<in> set r \<longleftrightarrow> or_empty ca \<noteq> PStr [] \<and> or_empty ia \<noteq> or_empty ca))"
proof (intro conjI allI impI)
  assume ak: "(a, k) \<in> set required_attrs" and ia: "getattr inst a = Some ia"
    and ca: "cfg k = Some ca"
  show "check_attr inst cfg cl a k
       = Inr (if or_empty ca \<noteq> PStr [] \<and> or_empty ia \<noteq> or_empty ca then cl @ [k] else cl)"
    using ia ca by (simp add: check_attr_def Let_def)
  fix r assume "compare_to_config inst cfg ud = Inr r"
  then show "k \<in> set r \<longleftrightarrow> or_empty ca \<noteq> PStr [] \<and> or_empty ia \<noteq> or_empty ca"
  proof (cases rule: compare_to_config_InrE)
    case p: (1 cud sgs gs csg i1 i2 i3 i4 c1 c2 c3 c4)
    from ak show ?thesis
    proof (cases rule: required_attrs_cases)
      case 1
      with ia ca p(5,6) have "i1 = ia" "c1 = ca" by (simp_all add: getattr_simps)
      with 1 p(13) show ?thesis by (simp add: mem_tag_if attr_differs_def)
    next
      case 2
      with ia ca p(7,8) have "i2 = ia" "c2 = ca" by (simp_all add: getattr_simps)
      with 2 p(13) show ?thesis by (simp add: mem_tag_if attr_differs_def)
    next
      case 3
      with ia ca p(9,10) have "i3 = ia" "c3 = ca" by (simp_all add: getattr_simps)
      with 3 p(13) show ?thesis by (simp add: mem_tag_if attr_differs_def)
    next
      case 4
      with ia ca p(11,12) have "i4 = ia" "c4 = ca" by (simp_all add: getattr_simps)
      with 4 p(13) show ?thesis by (simp add: mem_tag_if attr_differs_def)
    qed
  qed
qed

lemma sort_cong_mset: "mset xs = mset ys \<Longrightarrow> sort xs = sort ys"
  by (rule properties_for_sort) simp_all

lemma find_filter_Cons: "filter P xs = v # ys \<Longrightarrow> find P xs = Some v"
  by (induction xs) (auto split: if_splits)

section \<open>The required attributes\<close>

text \<open>
  Claim C1. For each of the four required pairs, when the instance attribute and the
  config key are both present, each holding a string or \<open>None\<close>, let \<open>si\<close> and
  \<open>sc\<close> be the instance and the config value with \<open>None\<close> read as the empty
  string. Then \<open>check_attr\<close> appends the config key to the change list exactly when
  \<open>sc\<close> is non-empty and differs from \<open>si\<close>, and the list that
  \<open>compare_to_config\<close> returns holds the tag under exactly that condition. An empty
  or \<open>None\<close> config value never produces the tag.
\<close>

theorem check_attr_emits_iff_config_differs:
  "(a, k) \<in> set required_attrs \<Longrightarrow> getattr inst a = Some ia \<Longrightarrow> cfg k = Some ca \<Longrightarrow>
   ia = PStr si \<or> (ia = PNone \<and> si = []) \<Longrightarrow> ca = PStr sc \<or> (ca = PNone \<and> sc = []) \<Longrightarrow>
     check_attr inst cfg cl a k = Inr (if sc \<noteq> [] \<and> si \<noteq> sc then cl @ [k] else cl)
     \<and> (\<forall>r. compare_to_config inst cfg ud = Inr r \<longrightarrow>
           (k \<in> set r \<longleftrightarrow> sc \<noteq> [] \<and> si \<noteq> sc))"
proof -
  assume ak: "(a, k) \<in> set required_attrs" and ia: "getattr inst a = Some ia"
    and ca: "cfg k = Some ca"
    and si: "ia = PStr si \<or> (ia = PNone \<and> si = [])"
    and sc: "ca = PStr sc \<or> (ca = PNone \<and> sc = [])"
  from si have i: "or_empty ia = PStr si" by (rule or_empty_cases)
  from sc have c: "or_empty ca = PStr sc" by (rule or_empty_cases)
  from check_attr_tag_iff
         [where a = a and k = k and inst = inst and cfg = cfg and ia = ia and ca = ca
            and cl = cl and ud = ud, OF ak ia ca]
  show ?thesis unfolding i c by simp
qed

lemma compare_c:
  "compare_to_config instance_c config_c (PStr ''userdata'') = Inr [''ImageId'', ''InstanceType'']"
  by (simp add: compare_to_config_def check_attr_def getattr_def instance_c_def config_c_def
        instance_a_def config_a_def or_empty_def Let_def)

theorem check_attr_emits_iff_config_differs_witness:
  "compare_to_config instance_c config_c (PStr ''userdata'') = Inr [''ImageId'', ''InstanceType'']
   \<and> (''image_id'', ''ImageId'') \<in> set required_attrs
   \<and> getattr instance_c ''image_id'' = Some (PStr ''ami-1'')
   \<and> config_c ''ImageId'' = Some (PStr ''ami-2'')
   \<and> ''ImageId'' \<in> set [''ImageId'', ''InstanceType'']
   \<and> (''instance_type'', ''InstanceType'') \<in> set required_attrs
   \<and> getattr instance_c ''instance_type'' = Some PNone
   \<and> config_c ''InstanceType'' = Some (PStr ''t2.micro'')
   \<and> ''InstanceType'' \<in> set [''ImageId'', ''InstanceType'']
   \<and> (''kernel_id'', ''KernelId'') \<in> set required_attrs
   \<and> getattr instance_c ''kernel_id'' = Some (PStr ''aki-1'')
   \<and> config_c ''KernelId'' = Some PNone
   \<and> ''KernelId'' \<notin> set [''ImageId'', ''InstanceType'']
   \<and> (''key_name'', ''KeyName'') \<in> set required_attrs
   \<and> getattr instance_c ''key_name'' = Some (PStr ''crunch-dev'')
   \<and> config_c ''KeyName'' = Some (PStr [])
   \<and> ''KeyName'' \<notin> set [''ImageId'', ''InstanceType'']
   \<and> check_attr instance_c config_c [] ''kernel_id'' ''KernelId'' = Inr []
   \<and> check_attr instance_c config_c [] ''instance_type'' ''InstanceType'' = Inr [''InstanceType'']"
proof -
  have p: "(''image_id'', ''ImageId'') \<in> set required_attrs"
    "(''instance_type'', ''InstanceType'') \<in> set required_attrs"
    "(''kernel_id'', ''KernelId'') \<in> set required_attrs"
    "(''key_name'', ''KeyName'') \<in> set required_attrs"
    by (simp_all add: required_attrs_def)
  have i: "getattr instance_c ''image_id'' = Some (PStr ''ami-1'')"
    "getattr instance_c ''instance_type'' = Some PNone"
    "getattr instance_c ''kernel_id'' = Some (PStr ''aki-1'')"
    "getattr instance_c ''key_name'' = Some (PStr ''crunch-dev'')"
    by (simp_all add: getattr_def instance_c_def instance_a_def)
  have c: "config_c ''ImageId'' = Some (PStr ''ami-2'')"
    "config_c ''InstanceType'' = Some (PStr ''t2.micro'')"
    "config_c ''KernelId'' = Some PNone"
    "config_c ''KeyName'' = Some (PStr [])"
    by (simp_all add: config_c_def config_a_def)
  have n: "PStr ''ami-1'' = PStr ''ami-1'' \<or> (PStr ''ami-1'' = PNone \<and> ''ami-1'' = [])"
    "PStr ''ami-2'' = PStr ''ami-2'' \<or> (PStr ''ami-2'' = PNone \<and> ''ami-2'' = [])"
    "PNone = PStr [] \<or> (PNone = PNone \<and> ([] :: string) = [])"
    "PStr ''t2.micro'' = PStr ''t2.micro'' \<or> (PStr ''t2.micro'' = PNone \<and> ''t2.micro'' = [])"
    "PStr ''aki-1'' = PStr ''aki-1'' \<or> (PStr ''aki-1'' = PNone \<and> ''aki-1'' = [])"
    "PStr ''crunch-dev'' = PStr ''crunch-dev''
       \<or> (PStr ''crunch-dev'' = PNone \<and> ''crunch-dev'' = [])"
    "PStr [] = PStr [] \<or> (PStr [] = PNone \<and> ([] :: string) = [])"
    by simp_all
  note image =
    check_attr_emits_iff_config_differs
      [where inst = instance_c and cfg = config_c and ud = "PStr ''userdata''" and cl = "[]"
          and a = "''image_id''" and k = "''ImageId''"
          and ia = "PStr ''ami-1''" and si = "''ami-1''"
          and ca = "PStr ''ami-2''" and sc = "''ami-2''", OF p(1) i(1) c(1) n(1) n(2)]
  note type =
    check_attr_emits_iff_config_differs
      [where inst = instance_c and cfg = config_c and ud = "PStr ''userdata''" and cl = "[]"
          and a = "''instance_type''" and k = "''InstanceType''"
          and ia = PNone and si = "[]"
          and ca = "PStr ''t2.micro''" and sc = "''t2.micro''", OF p(2) i(2) c(2) n(3) n(4)]
  note kernel =
    check_attr_emits_iff_config_differs
      [where inst = instance_c and cfg = config_c and ud = "PStr ''userdata''" and cl = "[]"
          and a = "''kernel_id''" and k = "''KernelId''"
          and ia = "PStr ''aki-1''" and si = "''aki-1''"
          and ca = PNone and sc = "[]", OF p(3) i(3) c(3) n(5) n(3)]
  note key =
    check_attr_emits_iff_config_differs
      [where inst = instance_c and cfg = config_c and ud = "PStr ''userdata''" and cl = "[]"
          and a = "''key_name''" and k = "''KeyName''"
          and ia = "PStr ''crunch-dev''" and si = "''crunch-dev''"
          and ca = "PStr []" and sc = "[]", OF p(4) i(4) c(4) n(6) n(7)]
  have m1: "''ImageId'' \<in> set [''ImageId'', ''InstanceType'']"
    using image [THEN conjunct2, THEN spec, THEN mp, OF compare_c] by simp
  have m2: "''InstanceType'' \<in> set [''ImageId'', ''InstanceType'']"
    and e2: "check_attr instance_c config_c [] ''instance_type'' ''InstanceType''
               = Inr [''InstanceType'']"
    using type [THEN conjunct2, THEN spec, THEN mp, OF compare_c] type [THEN conjunct1]
    by simp_all
  have m3: "''KernelId'' \<notin> set [''ImageId'', ''InstanceType'']"
    and e3: "check_attr instance_c config_c [] ''kernel_id'' ''KernelId'' = Inr []"
    using kernel [THEN conjunct2, THEN spec, THEN mp, OF compare_c] kernel [THEN conjunct1]
    by simp_all
  have m4: "''KeyName'' \<notin> set [''ImageId'', ''InstanceType'']"
    using key [THEN conjunct2, THEN spec, THEN mp, OF compare_c] by simp
  from compare_c p i c m1 m2 m3 m4 e2 e3 show ?thesis by simp
qed

text \<open>
  Claim C3, as the code has it. When one of the four required attributes is missing
  from the instance object, nothing is read as the empty string: \<open>getattr\<close> raises,
  \<open>check_attr\<close> lets that AttributeError through, and \<open>compare_to_config\<close>
  never returns a change list. Once the user data and security group steps have passed,
  the error it raises is an AttributeError. (Only an attribute that is present and holds
  \<open>None\<close> or the empty string is read as the empty string.)
\<close>

theorem compare_to_config_absent_instance_attr_raises:
  "(a, k) \<in> set required_attrs \<Longrightarrow> getattr inst a = None \<Longrightarrow>
     (\<exists>e. compare_to_config inst cfg ud = Inl e)
   \<and> (\<forall>cl. check_attr inst cfg cl a k = Inl (AttributeError_getattr a))
   \<and> (cfg ''UserData'' \<noteq> None \<and> security_groups inst \<noteq> None
        \<and> (\<exists>gs csg. cfg ''SecurityGroups'' = Some gs \<and> py_sorted gs = Inr csg)
       \<longrightarrow> (\<exists>e. compare_to_config inst cfg ud = Inl e \<and> is_AttributeError e))"
proof (intro conjI allI impI)
  assume ak: "(a, k) \<in> set required_attrs" and absent: "getattr inst a = None"
  from ak absent show raises: "\<exists>e. compare_to_config inst cfg ud = Inl e"
    by (simp add: compare_to_config_raises_if_incomplete)
  show "check_attr inst cfg cl a k = Inl (AttributeError_getattr a)" for cl
    using absent by (rule check_attr_no_attribute)
  assume pre: "cfg ''UserData'' \<noteq> None \<and> security_groups inst \<noteq> None
        \<and> (\<exists>gs csg. cfg ''SecurityGroups'' = Some gs \<and> py_sorted gs = Inr csg)"
  then obtain cud sgs gs csg where
    "cfg ''UserData'' = Some cud" "security_groups inst = Some sgs"
    "cfg ''SecurityGroups'' = Some gs" "py_sorted gs = Inr csg"
    by fastforce
  moreover from raises obtain e where e: "compare_to_config inst cfg ud = Inl e" ..
  ultimately have "is_AttributeError e"
    by (rule compare_to_config_error_after_groups)
  with e show "\<exists>e. compare_to_config inst cfg ud = Inl e \<and> is_AttributeError e"
    by simp
qed

text \<open>
  The instance without \<open>image_id\<close> makes \<open>compare_to_config\<close> raise, whereas
  the same instance with an empty \<open>image_id\<close> is compared and reported as drifted.
\<close>

lemma compare_no_image_id:
  "compare_to_config instance_no_image_id config_a (PStr ''userdata'')
     = Inl (AttributeError_getattr ''image_id'')"
  by (simp add: compare_to_config_def check_attr_def getattr_def instance_no_image_id_def
        instance_a_def config_a_def or_empty_def Let_def)

theorem compare_to_config_absent_attr_not_empty_string:
  "getattr instance_no_image_id ''image_id'' = None
   \<and> compare_to_config instance_no_image_id config_a (PStr ''userdata'')
       = Inl (AttributeError_getattr ''image_id'')
   \<and> getattr instance_empty_image_id ''image_id'' = Some (PStr [])
   \<and> compare_to_config instance_empty_image_id config_a (PStr ''userdata'') = Inr [''ImageId'']"
  by (simp add: compare_to_config_def check_attr_def getattr_def instance_no_image_id_def
        instance_empty_image_id_def instance_a_def config_a_def or_empty_def Let_def)

theorem compare_to_config_absent_instance_attr_raises_witness:
  "(''image_id'', ''ImageId'') \<in> set required_attrs
   \<and> getattr instance_no_image_id ''image_id'' = None
   \<and> config_a ''UserData'' \<noteq> None \<and> security_groups instance_no_image_id \<noteq> None
   \<and> config_a ''SecurityGroups'' = Some (PList [''sg-1'', ''sg-2''])
   \<and> py_sorted (PList [''sg-1'', ''sg-2'']) = Inr [''sg-1'', ''sg-2'']
   \<and> compare_to_config instance_no_image_id config_a (PStr ''userdata'')
       = Inl (AttributeError_getattr ''image_id'')
   \<and> is_AttributeError (AttributeError_getattr ''image_id'')
   \<and> check_attr instance_no_image_id config_a [] ''image_id'' ''ImageId''
       = Inl (AttributeError_getattr ''image_id'')"
proof -
  have h1: "(''image_id'', ''ImageId'') \<in> set required_attrs"
    by (simp add: required_attrs_def)
  have h2: "getattr instance_no_image_id ''image_id'' = None"
    by (simp add: getattr_def instance_no_image_id_def)
  have h3: "config_a ''UserData'' \<noteq> None \<and> security_groups instance_no_image_id \<noteq> None
     \<and> config_a ''SecurityGroups'' = Some (PList [''sg-1'', ''sg-2''])
     \<and> py_sorted (PList [''sg-1'', ''sg-2'']) = Inr [''sg-1'', ''sg-2'']"
    by (simp add: config_a_def instance_no_image_id_def instance_a_def)
  then have pre: "config_a ''UserData'' \<noteq> None \<and> security_groups instance_no_image_id \<noteq> None
     \<and> (\<exists>gs csg. config_a ''SecurityGroups'' = Some gs \<and> py_sorted gs = Inr csg)"
    by simp
  note absent =
    compare_to_config_absent_instance_attr_raises
      [where a = "''image_id''" and k = "''ImageId''" and inst = instance_no_image_id
         and cfg = config_a and ud = "PStr ''userdata''", OF h1 h2]
  have a: "check_attr instance_no_image_id config_a [] ''image_id'' ''ImageId''
          = Inl (AttributeError_getattr ''image_id'')"
    by (rule absent [THEN conjunct2, THEN conjunct1, THEN spec])
  have "\<exists>e. compare_to_config instance_no_image_id config_a (PStr ''userdata'') = Inl e
          \<and> is_AttributeError e"
    by (rule absent [THEN conjunct2, THEN conjunct2, THEN mp, OF pre])
  then have b: "is_AttributeError (AttributeError_getattr ''image_id'')"
    by (simp add: compare_no_image_id)
  from h1 h2 h3 a b compare_no_image_id show ?thesis by simp
qed

text \<open>
  Claim C6, as the code has it. When one of the four required keys is missing from the
  launch configuration, \<open>compare_to_config\<close> never returns a change list, so the
  field is never reported as drift. \<open>check_attr\<close> for that key raises the
  AttributeError whose message names the key, and that AttributeError is what
  \<open>compare_to_config\<close> raises when the statements before the lookup pass: the
  configuration has its user data and a list of security groups, the instance has its
  security groups, the pairs that come earlier in the fixed sequence are complete, and the
  instance has the attribute of the pair itself. Otherwise the error of the earlier
  statement is raised.
\<close>

theorem compare_to_config_absent_config_key_raises:
  "(a, k) \<in> set required_attrs \<Longrightarrow> cfg k = None \<Longrightarrow>
     (\<exists>e. compare_to_config inst cfg ud = Inl e)
   \<and> (\<forall>cl. getattr inst a \<noteq> None
          \<longrightarrow> check_attr inst cfg cl a k
                = Inl (AttributeError
                        (''Launch configuration response was missing required attribute '' @ k)))
   \<and> (cfg ''UserData'' \<noteq> None \<and> security_groups inst \<noteq> None
        \<and> (\<exists>gs. cfg ''SecurityGroups'' = Some gs \<and> gs \<noteq> PNone)
        \<and> (\<forall>(a', k') \<in> set (takeWhile (\<lambda>p. p \<noteq> (a, k)) required_attrs).
              getattr inst a' \<noteq> None \<and> cfg k' \<noteq> None)
        \<and> getattr inst a \<noteq> None
       \<longrightarrow> compare_to_config inst cfg ud
             = Inl (AttributeError
                     (''Launch configuration response was missing required attribute '' @ k)))"
proof (intro conjI allI impI)
  assume ak: "(a, k) \<in> set required_attrs" and absent: "cfg k = None"
  from ak absent show "\<exists>e. compare_to_config inst cfg ud = Inl e"
    by (simp add: compare_to_config_raises_if_incomplete)
  show "check_attr inst cfg cl a k
          = Inl (AttributeError
                  (''Launch configuration response was missing required attribute '' @ k))"
    if "getattr inst a \<noteq> None" for cl
    using that absent by (simp add: check_attr_no_key missing_required_msg_def)
  assume pre: "cfg ''UserData'' \<noteq> None \<and> security_groups inst \<noteq> None
        \<and> (\<exists>gs. cfg ''SecurityGroups'' = Some gs \<and> gs \<noteq> PNone)
        \<and> (\<forall>(a', k') \<in> set (takeWhile (\<lambda>p. p \<noteq> (a, k)) required_attrs).
              getattr inst a' \<noteq> None \<and> cfg k' \<noteq> None)
        \<and> getattr inst a \<noteq> None"
  then obtain cud sgs gs where
    g: "cfg ''UserData'' = Some cud" "security_groups inst = Some sgs"
       "cfg ''SecurityGroups'' = Some gs" and "gs \<noteq> PNone"
    by fastforce
  from py_sorted_not_None [OF \<open>gs \<noteq> PNone\<close>] obtain csg where s: "py_sorted gs = Inr csg" ..
  from pre have here: "getattr inst a \<noteq> None" by simp
  from pre have before:
    "\<forall>(a', k') \<in> set (takeWhile (\<lambda>p. p \<noteq> (a, k)) required_attrs).
       getattr inst a' \<noteq> None \<and> cfg k' \<noteq> None"
    by simp
  from ak show "compare_to_config inst cfg ud
             = Inl (AttributeError
                     (''Launch configuration response was missing required attribute '' @ k))"
  proof (cases rule: required_attrs_cases)
    case 1
    with absent g s here show ?thesis
      unfolding compare_to_config_unfold missing_required_msg_def
      by (clarsimp simp: getattr_simps split: option.splits)
  next
    case 2
    with before have "image_id inst \<noteq> None" "cfg ''ImageId'' \<noteq> None"
      by (simp_all add: required_attrs_def getattr_simps)
    with 2 absent g s here show ?thesis
      unfolding compare_to_config_unfold missing_required_msg_def
      by (clarsimp simp: getattr_simps split: option.splits)
  next
    case 3
    with before have "image_id inst \<noteq> None" "cfg ''ImageId'' \<noteq> None"
      "instance_type inst \<noteq> None" "cfg ''InstanceType'' \<noteq> None"
      by (simp_all add: required_attrs_def getattr_simps)
    with 3 absent g s here show ?thesis
      unfolding compare_to_config_unfold missing_required_msg_def
      by (clarsimp simp: getattr_simps split: option.splits)
  next
    case 4
    with before have "image_id inst \<noteq> None" "cfg ''ImageId'' \<noteq> None"
      "instance_type inst \<noteq> None" "cfg ''InstanceType'' \<noteq> None"
      "kernel_id inst \<noteq> None" "cfg ''KernelId'' \<noteq> None"
      by (simp_all add: required_attrs_def getattr_simps)
    with 4 absent g s here show ?thesis
      unfolding compare_to_config_unfold missing_required_msg_def
      by (clarsimp simp: getattr_simps split: option.splits)
  qed
qed

text \<open>
  A configuration without \<open>ImageId\<close> and without \<open>UserData\<close>: the lookup of the
  user data comes first and its KeyError is what the caller sees.
\<close>

theorem compare_to_config_absent_key_after_absent_userdata:
  "config_no_image_id_no_userdata ''ImageId'' = None
   \<and> compare_to_config instance_a config_no_image_id_no_userdata (PStr ''userdata'')
       = Inl (KeyError ''UserData'')"
  by (simp add: compare_to_config_def config_no_image_id_no_userdata_def)

lemma compare_no_image_id_no_key_name:
  "compare_to_config instance_a config_no_image_id_no_key_name (PStr ''userdata'')
     = Inl (AttributeError ''Launch configuration response was missing required attribute ImageId'')"
  by (simp add: compare_to_config_def check_attr_def getattr_def
        config_no_image_id_no_key_name_def instance_a_def config_a_def or_empty_def Let_def
        missing_required_msg_def)

lemma compare_no_key_name:
  "compare_to_config instance_a config_no_key_name (PStr ''userdata'')
     = Inl (AttributeError ''Launch configuration response was missing required attribute KeyName'')"
  by (simp add: compare_to_config_def check_attr_def getattr_def
        config_no_key_name_def instance_a_def config_a_def or_empty_def Let_def
        missing_required_msg_def)

theorem compare_to_config_absent_config_key_raises_witness:
  "(''image_id'', ''ImageId'') \<in> set required_attrs
   \<and> config_no_image_id_no_key_name ''ImageId'' = None
   \<and> config_no_image_id_no_key_name ''KeyName'' = None
   \<and> config_no_image_id_no_key_name ''UserData'' = Some (PStr ''userdata'')
   \<and> security_groups instance_a = Some [\<lparr>GroupId = ''sg-2''\<rparr>, \<lparr>GroupId = ''sg-1''\<rparr>]
   \<and> config_no_image_id_no_key_name ''SecurityGroups'' = Some (PList [''sg-1'', ''sg-2''])
   \<and> takeWhile (\<lambda>p. p \<noteq> (''image_id'', ''ImageId'')) required_attrs = []
   \<and> getattr instance_a ''image_id'' = Some (PStr ''ami-1'')
   \<and> check_attr instance_a config_no_image_id_no_key_name [] ''image_id'' ''ImageId''
       = Inl (AttributeError
               ''Launch configuration response was missing required attribute ImageId'')
   \<and> compare_to_config instance_a config_no_image_id_no_key_name (PStr ''userdata'')
       = Inl (AttributeError
               ''Launch configuration response was missing required attribute ImageId'')
   \<and> (''key_name'', ''KeyName'') \<in> set required_attrs
   \<and> config_no_key_name ''KeyName'' = None
   \<and> config_no_key_name ''UserData'' = Some (PStr ''userdata'')
   \<and> config_no_key_name ''SecurityGroups'' = Some (PList [''sg-1'', ''sg-2''])
   \<and> takeWhile (\<lambda>p. p \<noteq> (''key_name'', ''KeyName'')) required_attrs
       = [(''image_id'', ''ImageId''), (''instance_type'', ''InstanceType''),
          (''kernel_id'', ''KernelId'')]
   \<and> getattr instance_a ''instance_type'' = Some (PStr ''t2.micro'')
   \<and> getattr instance_a ''kernel_id'' = Some PNone
   \<and> getattr instance_a ''key_name'' = Some (PStr ''crunch-dev'')
   \<and> config_no_key_name ''ImageId'' = Some (PStr ''ami-2'')
   \<and> config_no_key_name ''InstanceType'' = Some (PStr ''t2.micro'')
   \<and> config_no_key_name ''KernelId'' = Some (PStr [])
   \<and> compare_to_config instance_a config_no_key_name (PStr ''userdata'')
       = Inl (AttributeError
               ''Launch configuration response was missing required attribute KeyName'')"
proof -
  have h1: "(''image_id'', ''ImageId'') \<in> set required_attrs"
    and k1: "(''key_name'', ''KeyName'') \<in> set required_attrs"
    by (simp_all add: required_attrs_def)
  have h2: "config_no_image_id_no_key_name ''ImageId'' = None"
    and k2: "config_no_key_name ''KeyName'' = None"
    by (simp_all add: config_no_image_id_no_key_name_def config_no_key_name_def)
  have facts:
    "config_no_image_id_no_key_name ''KeyName'' = None"
    "config_no_image_id_no_key_name ''UserData'' = Some (PStr ''userdata'')"
    "security_groups instance_a = Some [\<lparr>GroupId = ''sg-2''\<rparr>, \<lparr>GroupId = ''sg-1''\<rparr>]"
    "config_no_image_id_no_key_name ''SecurityGroups'' = Some (PList [''sg-1'', ''sg-2''])"
    "takeWhile (\<lambda>p. p \<noteq> (''image_id'', ''ImageId'')) required_attrs = []"
    "getattr instance_a ''image_id'' = Some (PStr ''ami-1'')"
    "config_no_key_name ''UserData'' = Some (PStr ''userdata'')"
    "config_no_key_name ''SecurityGroups'' = Some (PList [''sg-1'', ''sg-2''])"
    "takeWhile (\<lambda>p. p \<noteq> (''key_name'', ''KeyName'')) required_attrs
       = [(''image_id'', ''ImageId''), (''instance_type'', ''InstanceType''),
          (''kernel_id'', ''KernelId'')]"
    "getattr instance_a ''instance_type'' = Some (PStr ''t2.micro'')"
    "getattr instance_a ''kernel_id'' = Some PNone"
    "getattr instance_a ''key_name'' = Some (PStr ''crunch-dev'')"
    "config_no_key_name ''ImageId'' = Some (PStr ''ami-2'')"
    "config_no_key_name ''InstanceType'' = Some (PStr ''t2.micro'')"
    "config_no_key_name ''KernelId'' = Some (PStr [])"
    by (simp_all add: config_no_image_id_no_key_name_def config_no_key_name_def config_a_def
          instance_a_def getattr_def required_attrs_def)
  have h3: "getattr instance_a ''image_id'' \<noteq> None"
    by (simp add: facts)
  have h4: "config_no_image_id_no_key_name ''UserData'' \<noteq> None
        \<and> security_groups instance_a \<noteq> None
        \<and> (\<exists>gs. config_no_image_id_no_key_name ''SecurityGroups'' = Some gs \<and> gs \<noteq> PNone)
        \<and> (\<forall>(a', k') \<in> set (takeWhile (\<lambda>p. p \<noteq> (''image_id'', ''ImageId'')) required_attrs).
              getattr instance_a a' \<noteq> None \<and> config_no_image_id_no_key_name k' \<noteq> None)
        \<and> getattr instance_a ''image_id'' \<noteq> None"
    by (simp add: facts)
  have k4: "config_no_key_name ''UserData'' \<noteq> None
        \<and> security_groups instance_a \<noteq> None
        \<and> (\<exists>gs. config_no_key_name ''SecurityGroups'' = Some gs \<and> gs \<noteq> PNone)
        \<and> (\<forall>(a', k') \<in> set (takeWhile (\<lambda>p. p \<noteq> (''key_name'', ''KeyName'')) required_attrs).
              getattr instance_a a' \<noteq> None \<and> config_no_key_name k' \<noteq> None)
        \<and> getattr instance_a ''key_name'' \<noteq> None"
    by (simp add: facts)
  note first = compare_to_config_absent_config_key_raises
        [where a = "''image_id''" and k = "''ImageId''" and inst = instance_a
        and cfg = config_no_image_id_no_key_name and ud = "PStr ''userdata''", OF h1 h2]
  note last = compare_to_config_absent_config_key_raises
        [where a = "''key_name''" and k = "''KeyName''" and inst = instance_a
        and cfg = config_no_key_name and ud = "PStr ''userdata''", OF k1 k2]
  have a: "check_attr instance_a config_no_image_id_no_key_name [] ''image_id'' ''ImageId''
       = Inl (AttributeError
               ''Launch configuration response was missing required attribute ImageId'')"
    using first [THEN conjunct2, THEN conjunct1, THEN spec, THEN mp, OF h3] by simp
  have b: "compare_to_config instance_a config_no_image_id_no_key_name (PStr ''userdata'')
       = Inl (AttributeError
               ''Launch configuration response was missing required attribute ImageId'')"
    using first [THEN conjunct2, THEN conjunct2, THEN mp, OF h4] by simp
  have c: "compare_to_config instance_a config_no_key_name (PStr ''userdata'')
       = Inl (AttributeError
               ''Launch configuration response was missing required attribute KeyName'')"
    using last [THEN conjunct2, THEN conjunct2, THEN mp, OF k4] by simp
  from h1 k1 h2 k2 facts a b c show ?thesis by simp
qed

section \<open>User data and security groups\<close>

text \<open>
  Claim C9. Permuting the instance's list of security groups or the configuration's list
  of group ids does not change what \<open>compare_to_config\<close> returns or raises, and the
  returned list holds the tag SecurityGroups exactly when the sorted lists of group ids
  differ.
\<close>

theorem compare_to_config_security_groups_order:
  "mset sgs' = mset sgs \<Longrightarrow> mset gs' = mset gs \<Longrightarrow>
     compare_to_config (inst\<lparr>security_groups := Some sgs'\<rparr>)
         (cfg(''SecurityGroups'' \<mapsto> PList gs')) ud
       = compare_to_config (inst\<lparr>security_groups := Some sgs\<rparr>)
           (cfg(''SecurityGroups'' \<mapsto> PList gs)) ud
   \<and> (\<forall>r. compare_to_config (inst\<lparr>security_groups := Some sgs\<rparr>)
             (cfg(''SecurityGroups'' \<mapsto> PList gs)) ud = Inr r
          \<longrightarrow> (''SecurityGroups'' \<in> set r \<longleftrightarrow> sort (map GroupId sgs) \<noteq> sort gs))"
proof (intro conjI allI impI)
  assume m1: "mset sgs' = mset sgs" and m2: "mset gs' = mset gs"
  from m1 have "mset (map GroupId sgs') = mset (map GroupId sgs)" by simp
  then have s1: "sort (map GroupId sgs') = sort (map GroupId sgs)" by (rule sort_cong_mset)
  from m2 have s2: "sort gs' = sort gs" by (rule sort_cong_mset)
  show "compare_to_config (inst\<lparr>security_groups := Some sgs'\<rparr>)
         (cfg(''SecurityGroups'' \<mapsto> PList gs')) ud
       = compare_to_config (inst\<lparr>security_groups := Some sgs\<rparr>)
           (cfg(''SecurityGroups'' \<mapsto> PList gs)) ud"
    unfolding compare_to_config_unfold iam_differs_def
    by (simp add: s1 s2 cong: option.case_cong sum.case_cong)
  fix r
  assume "compare_to_config (inst\<lparr>security_groups := Some sgs\<rparr>)
             (cfg(''SecurityGroups'' \<mapsto> PList gs)) ud = Inr r"
  then show "''SecurityGroups'' \<in> set r \<longleftrightarrow> sort (map GroupId sgs) \<noteq> sort gs"
  proof (cases rule: compare_to_config_InrE)
    case p: (1 cud sgs0 gs0 csg i1 i2 i3 i4 c1 c2 c3 c4)
    from p(2) have "sgs0 = sgs" by simp
    moreover from p(3) have "gs0 = PList gs" by simp
    with p(4) have "csg = sort gs" by simp
    ultimately show ?thesis using p(13) by (simp add: mem_tag_if)
  qed
qed

theorem compare_to_config_security_groups_order_witness:
  "mset [\<lparr>GroupId = ''sg-1''\<rparr>, \<lparr>GroupId = ''sg-2''\<rparr>] = mset [\<lparr>GroupId = ''sg-2''\<rparr>, \<lparr>GroupId = ''sg-1''\<rparr>]
   \<and> mset [''sg-2'', ''sg-1''] = mset [''sg-1'', ''sg-2'']
   \<and> compare_to_config
        (instance_a\<lparr>security_groups := Some [\<lparr>GroupId = ''sg-1''\<rparr>, \<lparr>GroupId = ''sg-2''\<rparr>]\<rparr>)
        (config_a(''SecurityGroups'' \<mapsto> PList [''sg-2'', ''sg-1''])) (PStr ''userdata'')
      = compare_to_config
        (instance_a\<lparr>security_groups := Some [\<lparr>GroupId = ''sg-2''\<rparr>, \<lparr>GroupId = ''sg-1''\<rparr>]\<rparr>)
        (config_a(''SecurityGroups'' \<mapsto> PList [''sg-1'', ''sg-2''])) (PStr ''userdata'')
   \<and> compare_to_config
        (instance_a\<lparr>security_groups := Some [\<lparr>GroupId = ''sg-2''\<rparr>, \<lparr>GroupId = ''sg-1''\<rparr>]\<rparr>)
        (config_a(''SecurityGroups'' \<mapsto> PList [''sg-1'', ''sg-2''])) (PStr ''userdata'')
      = Inr [''ImageId'']"
proof -
  have h1: "mset [\<lparr>GroupId = ''sg-1''\<rparr>, \<lparr>GroupId = ''sg-2''\<rparr>]
              = mset [\<lparr>GroupId = ''sg-2''\<rparr>, \<lparr>GroupId = ''sg-1''\<rparr>]"
    by (simp add: add_mset_commute)
  have h2: "mset [''sg-2'', ''sg-1''] = mset [''sg-1'', ''sg-2'']"
    by (simp add: add_mset_commute)
  have e: "compare_to_config
        (instance_a\<lparr>security_groups := Some [\<lparr>GroupId = ''sg-2''\<rparr>, \<lparr>GroupId = ''sg-1''\<rparr>]\<rparr>)
        (config_a(''SecurityGroups'' \<mapsto> PList [''sg-1'', ''sg-2''])) (PStr ''userdata'')
      = Inr [''ImageId'']"
    by (simp add: compare_to_config_def check_attr_def getattr_def
        instance_a_def config_a_def or_empty_def Let_def)
  from compare_to_config_security_groups_order [where inst = instance_a and cfg = config_a and ud = "PStr ''userdata''", OF h1 h2]
    h1 h2 e
  show ?thesis by simp
qed

text \<open>
  Claim C10. A launch configuration without the key UserData makes
  \<open>compare_to_config\<close> raise the KeyError of the dict lookup, and so does one with
  UserData but without SecurityGroups, for an instance that has its security groups:
  a raw KeyError, not the AttributeError of the four required keys.
\<close>

theorem compare_to_config_raw_key_error:
  "(cfg ''UserData'' = None \<longrightarrow> compare_to_config inst cfg ud = Inl (KeyError ''UserData''))
   \<and> (cfg ''UserData'' \<noteq> None \<and> cfg ''SecurityGroups'' = None \<and> security_groups inst \<noteq> None
        \<longrightarrow> compare_to_config inst cfg ud = Inl (KeyError ''SecurityGroups''))"
  by (auto simp: compare_to_config_no_UserData compare_to_config_no_SecurityGroups)

theorem compare_to_config_raw_key_error_witness:
  "config_no_userdata ''UserData'' = None
   \<and> compare_to_config instance_a config_no_userdata (PStr ''userdata'') = Inl (KeyError ''UserData'')
   \<and> config_no_security_groups ''UserData'' \<noteq> None
   \<and> config_no_security_groups ''SecurityGroups'' = None
   \<and> security_groups instance_a \<noteq> None
   \<and> compare_to_config instance_a config_no_security_groups (PStr ''userdata'')
       = Inl (KeyError ''SecurityGroups'')"
proof -
  have h1: "config_no_userdata ''UserData'' = None"
    by (simp add: config_no_userdata_def)
  have h2: "config_no_security_groups ''UserData'' \<noteq> None
            \<and> config_no_security_groups ''SecurityGroups'' = None
            \<and> security_groups instance_a \<noteq> None"
    by (simp add: config_no_security_groups_def config_a_def instance_a_def)
  from h1 h2
    compare_to_config_raw_key_error [where cfg = config_no_userdata and inst = instance_a and ud = "PStr ''userdata''"]
    compare_to_config_raw_key_error [where cfg = config_no_security_groups and inst = instance_a and ud = "PStr ''userdata''"]
  show ?thesis by simp
qed

section \<open>The volume comparison\<close>

text \<open>
  Claim C7. When the configuration dict of volumes is empty and the instance dict has
  exactly one entry, compare_volumes_config returns the empty list, whatever that single
  volume holds.
\<close>

theorem compare_volumes_config_default_volume:
  "config_volumes_dict = [] \<Longrightarrow> length instance_volumes_dict = 1
     \<Longrightarrow> compare_volumes_config instance_volumes_dict config_volumes_dict = Inr []"
  by (simp add: compare_volumes_config_def)

theorem compare_volumes_config_default_volume_witness:
  "length [(''sdb'', volume_detached)] = 1
   \<and> compare_volumes_config [(''sdb'', volume_detached)] [] = Inr []"
  using compare_volumes_config_default_volume [of "[]" "[(''sdb'', volume_detached)]"]
  by simp

text \<open>
  Claim C8. Outside the case of an empty configuration and a single instance volume, when
  some device is a key of one dict and not of the other, \<open>compare_volumes_config\<close>
  returns the tags \<open>DeviceName:d\<close> for the devices \<open>d\<close> that are keys of exactly
  one of the two dicts, each once and in ascending order, and nothing else: no volume
  attribute is compared.
\<close>

theorem compare_volumes_config_device_names:
  "\<not> (length config_volumes_dict = 0 \<and> length instance_volumes_dict = 1) \<Longrightarrow>
   (fst ` set instance_volumes_dict - fst ` set config_volumes_dict)
     \<union> (fst ` set config_volumes_dict - fst ` set instance_volumes_dict) \<noteq> {} \<Longrightarrow>
   \<exists>ds. compare_volumes_config instance_volumes_dict config_volumes_dict
           = Inr (map (\<lambda>d. ''DeviceName:'' @ d) ds)
        \<and> sorted ds \<and> distinct ds
        \<and> set ds = (fst ` set instance_volumes_dict - fst ` set config_volumes_dict)
                     \<union> (fst ` set config_volumes_dict - fst ` set instance_volumes_dict)"
proof -
  let ?D = "(fst ` set instance_volumes_dict - fst ` set config_volumes_dict)
     \<union> (fst ` set config_volumes_dict - fst ` set instance_volumes_dict)"
  assume a: "\<not> (length config_volumes_dict = 0 \<and> length instance_volumes_dict = 1)"
    and b: "?D \<noteq> {}"
  have d: "symmetric_difference (keys instance_volumes_dict) (keys config_volumes_dict) = ?D"
    by (simp add: symmetric_difference_def keys_def)
  have fin: "finite ?D" by simp
  have tag: "device_name_tag = (\<lambda>d. ''DeviceName:'' @ d)"
    by (rule ext) (simp add: device_name_tag_def)
  from a b have "compare_volumes_config instance_volumes_dict config_volumes_dict
          = Inr (map (\<lambda>d. ''DeviceName:'' @ d) (sorted_list_of_set ?D))"
    unfolding compare_volumes_config_def Let_def d tag by auto
  moreover have "sorted (sorted_list_of_set ?D)" "distinct (sorted_list_of_set ?D)" by simp_all
  moreover have "set (sorted_list_of_set ?D) = ?D" using fin by simp
  ultimately show ?thesis by blast
qed

lemma compare_volumes_cb:
  "compare_volumes_config instance_volumes_cb config_volumes_cb
     = Inr [''DeviceName:sdb'', ''DeviceName:sdc'']"
  by (simp add: compare_volumes_config_def symmetric_difference_def keys_def
        device_name_tag_def instance_volumes_cb_def config_volumes_cb_def insert_Diff_if)

theorem compare_volumes_config_device_names_witness:
  "\<not> (length config_volumes_cb = 0 \<and> length instance_volumes_cb = 1)
   \<and> fst ` set instance_volumes_cb - fst ` set config_volumes_cb = {''sdc''}
   \<and> fst ` set config_volumes_cb - fst ` set instance_volumes_cb = {''sdb''}
   \<and> {''sdc''} \<union> {''sdb''} \<noteq> ({} :: string set)
   \<and> sorted [''sdb'', ''sdc''] \<and> distinct [''sdb'', ''sdc'']
   \<and> set [''sdb'', ''sdc''] = {''sdc''} \<union> {''sdb''}
   \<and> compare_volumes_config instance_volumes_cb config_volumes_cb
       = Inr [''DeviceName:sdb'', ''DeviceName:sdc'']"
proof -
  have h1: "\<not> (length config_volumes_cb = 0 \<and> length instance_volumes_cb = 1)"
    by (simp add: config_volumes_cb_def)
  have d1: "fst ` set instance_volumes_cb - fst ` set config_volumes_cb = {''sdc''}"
    and d2: "fst ` set config_volumes_cb - fst ` set instance_volumes_cb = {''sdb''}"
    by (simp_all add: instance_volumes_cb_def config_volumes_cb_def insert_Diff_if)
  have h2: "(fst ` set instance_volumes_cb - fst ` set config_volumes_cb)
      \<union> (fst ` set config_volumes_cb - fst ` set instance_volumes_cb) \<noteq> {}"
    unfolding d1 d2 by simp
  from compare_volumes_config_device_names [OF h1 h2] obtain ds where
    r: "compare_volumes_config instance_volumes_cb config_volumes_cb
          = Inr (map (\<lambda>d. ''DeviceName:'' @ d) ds)"
    and s: "sorted ds" "distinct ds" and e: "set ds = {''sdc''} \<union> {''sdb''}"
    unfolding d1 d2 by (elim exE conjE)
  have s': "sorted [''sdb'', ''sdc'']" "distinct [''sdb'', ''sdc'']"
    and e': "set [''sdb'', ''sdc''] = {''sdc''} \<union> {''sdb''}"
    by (simp_all add: insert_commute)
  from e e' have "set ds = set [''sdb'', ''sdc'']" by simp
  from sorted_distinct_set_unique [OF s s' this] have "ds = [''sdb'', ''sdc'']" .
  with r have "compare_volumes_config instance_volumes_cb config_volumes_cb
       = Inr [''DeviceName:sdb'', ''DeviceName:sdc'']"
    by simp
  with h1 d1 d2 s' e' show ?thesis by simp
qed

text \<open>
  With equal key sets the attributes are compared device by device, in the order of the
  instance dict.
\<close>

lemma compare_volumes_config_attributes_example:
  "compare_volumes_config [(''sda1'', volume_gp2), (''sda2'', volume_gp2)]
     [(''sda1'', config_volume_gp2), (''sda2'', config_volume_standard)]
   = Inr [''sda2.BlockDeviceMappings.Ebs.VolumeType'', ''sda2.BlockDeviceMappings.Ebs.Size'',
          ''sda2.BlockDeviceMappings.Ebs.DeleteOnTermination'']"
  by (simp add: compare_volumes_config_def symmetric_difference_def keys_def
        compare_volume_def volume_gp2_def config_volume_gp2_def config_volume_standard_def)

section \<open>The oldest instance\<close>

text \<open>
  Claim C2, as the code has it. For a non-empty list of candidates,
  \<open>get_oldest_instance\<close> returns a member of the list whose launch time is minimal,
  namely the first such member in the order of the list: the sort is stable and the
  instance id plays no part.
\<close>

theorem get_oldest_instance_first_minimal:
  "instances \<noteq> [] \<Longrightarrow>
     \<exists>oldest. get_oldest_instance instances = Inr oldest
       \<and> oldest \<in> set instances
       \<and> (\<forall>i \<in> set instances. launch_time oldest \<le> launch_time i)
       \<and> find (\<lambda>i. \<forall>j \<in> set instances. launch_time i \<le> launch_time j) instances
           = Some oldest"
proof -
  assume ne: "instances \<noteq> []"
  then have "sort_key launch_time instances \<noteq> []"
    by (metis length_sort length_0_conv)
  then obtain oldest rest where s: "sort_key launch_time instances = oldest # rest"
    by (cases "sort_key launch_time instances") auto
  then have r: "get_oldest_instance instances = Inr oldest"
    by (simp add: get_oldest_instance_def)
  have mem: "oldest \<in> set instances"
    using s by (metis list.set_intros(1) set_sort)
  have "sorted (map launch_time (oldest # rest))"
    using s by (metis sorted_sort_key)
  then have "\<forall>i \<in> set (oldest # rest). launch_time oldest \<le> launch_time i"
    by auto
  then have least: "\<forall>i \<in> set instances. launch_time oldest \<le> launch_time i"
    using s by (metis set_sort)
  have "filter (\<lambda>i. launch_time i = launch_time oldest) instances
          = filter (\<lambda>i. launch_time i = launch_time oldest) (oldest # rest)"
    using s by (metis sort_key_stable)
  then have "filter (\<lambda>i. launch_time i = launch_time oldest) instances
          = oldest # filter (\<lambda>i. launch_time i = launch_time oldest) rest"
    by simp
  moreover have "filter (\<lambda>i. \<forall>j \<in> set instances. launch_time i \<le> launch_time j) instances
          = filter (\<lambda>i. launch_time i = launch_time oldest) instances"
  proof (rule filter_cong [OF refl])
    fix i assume "i \<in> set instances"
    with least mem
    show "(\<forall>j \<in> set instances. launch_time i \<le> launch_time j)
            \<longleftrightarrow> launch_time i = launch_time oldest"
      by (auto intro: antisym)
  qed
  ultimately have "find (\<lambda>i. \<forall>j \<in> set instances. launch_time i \<le> launch_time j) instances
          = Some oldest"
    by (simp add: find_filter_Cons)
  with r mem least show ?thesis by blast
qed

text \<open>
  Two candidates with the same launch time: whichever is listed first is chosen, so the
  choice follows the order of the list and neither the smaller nor the larger id.
\<close>

lemma oldest_ba: "get_oldest_instance [instance_b, instance_a] = Inr instance_b"
  by (simp add: get_oldest_instance_def instance_b_def instance_a_def)

lemma oldest_ab: "get_oldest_instance [instance_a, instance_b] = Inr instance_a"
  by (simp add: get_oldest_instance_def instance_b_def instance_a_def)

theorem get_oldest_instance_tie_follows_list_order:
  "set [instance_b, instance_a] = set [instance_a, instance_b]
   \<and> launch_time instance_a = launch_time instance_b
   \<and> instance_id instance_a < instance_id instance_b
   \<and> get_oldest_instance [instance_b, instance_a] = Inr instance_b
   \<and> get_oldest_instance [instance_a, instance_b] = Inr instance_a"
  by (simp add: oldest_ba oldest_ab insert_commute) (simp add: instance_a_def instance_b_def)

theorem get_oldest_instance_first_minimal_witness:
  "[instance_b, instance_a] \<noteq> []
   \<and> get_oldest_instance [instance_b, instance_a] = Inr instance_b
   \<and> instance_b \<in> set [instance_b, instance_a]
   \<and> launch_time instance_b \<le> launch_time instance_b
   \<and> launch_time instance_b \<le> launch_time instance_a
   \<and> find (\<lambda>i. launch_time i \<le> launch_time instance_b \<and> launch_time i \<le> launch_time instance_a)
        [instance_b, instance_a] = Some instance_b"
proof -
  have h: "[instance_b, instance_a] \<noteq> []" by simp
  from get_oldest_instance_first_minimal [OF h] obtain oldest where
    o: "get_oldest_instance [instance_b, instance_a] = Inr oldest"
       "\<forall>i \<in> set [instance_b, instance_a]. launch_time oldest \<le> launch_time i"
       "find (\<lambda>i. \<forall>j \<in> set [instance_b, instance_a]. launch_time i \<le> launch_time j)
          [instance_b, instance_a] = Some oldest"
    by (elim exE conjE)
  from o(1) have "oldest = instance_b" by (simp add: oldest_ba)
  with o show ?thesis by simp
qed

section \<open>Terminating an instance\<close>

text \<open>
  Claim C4, as the code has it. \<open>terminate_instance\<close> swallows a ClientError whose
  code contains DryRunOperation whether or not the dry-run flag is set, and every other
  exception of the client call propagates unchanged.
\<close>

theorem terminate_instance_swallows_marker:
  "(terminate_instances do_dry_run [iid] = Raises (ClientError code)
      \<and> sublist ''DryRunOperation'' code
     \<longrightarrow> terminate_instance do_dry_run terminate_instances iid = Inr ())
   \<and> (terminate_instances do_dry_run [iid] = Raises err
      \<and> (\<forall>code. err = ClientError code \<longrightarrow> \<not> sublist ''DryRunOperation'' code)
     \<longrightarrow> terminate_instance do_dry_run terminate_instances iid = Inl err)"
proof (intro conjI impI)
  assume "terminate_instances do_dry_run [iid] = Raises (ClientError code)
      \<and> sublist ''DryRunOperation'' code"
  then show "terminate_instance do_dry_run terminate_instances iid = Inr ()"
    by (simp add: terminate_instance_def)
next
  assume "terminate_instances do_dry_run [iid] = Raises err
      \<and> (\<forall>code. err = ClientError code \<longrightarrow> \<not> sublist ''DryRunOperation'' code)"
  then show "terminate_instance do_dry_run terminate_instances iid = Inl err"
    by (cases err) (simp_all add: terminate_instance_def)
qed

text \<open>
  With the dry-run flag off, a client that answers with the dry-run marker does not make
  \<open>terminate_instance\<close> raise.
\<close>

lemma marker_sublist: "sublist ''DryRunOperation'' ''DryRunOperation''"
  by simp

lemma marker_not_sublist: "\<not> sublist ''DryRunOperation'' ''TestError''"
  by (simp add: sublist_code)

theorem terminate_instance_marker_without_dry_run:
  "always_dry_run_marker False [''i-0a''] = Raises (ClientError ''DryRunOperation'')
   \<and> terminate_instance False always_dry_run_marker ''i-0a'' = Inr ()"
  by (simp add: terminate_instance_def always_dry_run_marker_def)

theorem terminate_instance_swallows_marker_witness:
  "always_dry_run_marker False [''i-0a''] = Raises (ClientError ''DryRunOperation'')
   \<and> sublist ''DryRunOperation'' ''DryRunOperation''
   \<and> terminate_instance False always_dry_run_marker ''i-0a'' = Inr ()
   \<and> always_test_error True [''i-0a''] = Raises (ClientError ''TestError'')
   \<and> \<not> sublist ''DryRunOperation'' ''TestError''
   \<and> terminate_instance True always_test_error ''i-0a'' = Inl (ClientError ''TestError'')"
proof -
  have h1: "always_dry_run_marker False [''i-0a''] = Raises (ClientError ''DryRunOperation'')
      \<and> sublist ''DryRunOperation'' ''DryRunOperation''"
    by (simp add: always_dry_run_marker_def)
  have h2: "always_test_error True [''i-0a''] = Raises (ClientError ''TestError'')
      \<and> (\<forall>code. ClientError ''TestError'' = ClientError code
            \<longrightarrow> \<not> sublist ''DryRunOperation'' code)"
    using marker_not_sublist by (simp add: always_test_error_def)
  have a: "terminate_instance False always_dry_run_marker ''i-0a'' = Inr ()"
    by (rule terminate_instance_swallows_marker [where terminate_instances = always_dry_run_marker and do_dry_run = False
          and iid = "''i-0a''" and code = "''DryRunOperation''",
          THEN conjunct1, THEN mp, OF h1])
  have b: "terminate_instance True always_test_error ''i-0a'' = Inl (ClientError ''TestError'')"
    by (rule terminate_instance_swallows_marker [where terminate_instances = always_test_error and do_dry_run = True
          and iid = "''i-0a''" and err = "ClientError ''TestError''",
          THEN conjunct2, THEN mp, OF h2])
  from h1 h2 a b marker_not_sublist show ?thesis by simp
qed

section \<open>The readiness probe\<close>

text \<open>
  Without a tunnel, \<open>is_ready\<close> always returns a boolean, which is true exactly
  when the manager was not connected before, the client connects, and the remote command
  exits with status 0; the session is closed afterwards.
\<close>

lemma is_ready_direct:
  assumes "\<not> use_bastion_tunnel m"
  shows "is_ready env m =
           Some (m\<lparr>session_open := False, connected := False\<rparr>,
                 Inr (\<not> connected m \<and> ssh_connect env = Returns ()
                      \<and> exec_command env = Returns 0))"
  using assms
  by (simp add: is_ready_def connect_def create_connection_def client_connect_def
        close_connections_def Let_def split: outcome.splits)

text \<open>
  With a tunnel that starts and comes up at once, the same holds, and the forwarder that
  was started is closed again.
\<close>

lemma wait_tunnel_up_now: "up n \<Longrightarrow> wait_tunnel_up up n = Some ()"
  by (subst wait_tunnel_up.simps) simp

lemma is_ready_tunnel_up:
  assumes "use_bastion_tunnel m" "\<not> connected m"
    and "tunnel_start env = Returns ()" "tunnel_is_up env 0"
  shows "is_ready env m =
           Some (m\<lparr>session_open := False, connected := False, ssh_tunnel := TunnelNone\<rparr>,
                 Inr (ssh_connect env = Returns () \<and> exec_command env = Returns 0))"
  using assms
  by (simp add: is_ready_def connect_def create_connection_def get_ssh_tunnel_def
        client_connect_def close_connections_def wait_tunnel_up_now Let_def
        split: outcome.splits)

text \<open>
  Claim C5. With a tunnel the claim fails: when the forwarder cannot be started, the
  \<open>finally\<close> clause calls \<open>close\<close> on the attribute \<open>_ssh_tunnel\<close>, which was
  never assigned on a fresh manager and is \<open>None\<close> after an earlier probe, and
  \<open>is_ready\<close> raises an AttributeError instead of returning \<open>False\<close>.
\<close>

theorem is_ready_tunnel_start_failure_raises:
  "is_ready env_bastion_unreachable (get_instance True)
     = Some (get_instance True, Inl (AttributeError_getattr ''_ssh_tunnel''))
   \<and> is_ready env_bastion_unreachable manager_after_probe
     = Some (manager_after_probe, Inl (AttributeError_getattr ''close''))"
  by (simp add: is_ready_def connect_def create_connection_def get_ssh_tunnel_def
        close_connections_def get_instance_def manager_after_probe_def
        env_bastion_unreachable_def Let_def)

end
